theory Spec2Isabelle
  imports Main "HOL-Library.AList"
begin

section \<open>The Outline editor: data model\<close>

text \<open>
  The development embeds \<^verbatim>\<open>packages/outline/src/OutlineEditor.js\<close>.
  JavaScript objects that are compared by reference (\<^verbatim>\<open>===\<close>) are addresses; the
  objects they name live in a store. A JavaScript \<^verbatim>\<open>Map\<close> is an association list in
  insertion order: \<^verbatim>\<open>set\<close> is \<^const>\<open>AList.update\<close> (overwrite in place, or append),
  \<^verbatim>\<open>delete\<close> is \<^const>\<open>AList.delete\<close>, \<^verbatim>\<open>get\<close> is \<^const>\<open>map_of\<close> with
  \<^const>\<open>None\<close> for \<^verbatim>\<open>undefined\<close>. A JavaScript \<^verbatim>\<open>Set\<close> is the list of its
  members in insertion order. A plain object used as a dictionary is the association list
  of its own properties, read through the prototype chain. A \<^verbatim>\<open>throw\<close> is the left
  summand of the result.
\<close>

type_synonym NodeKey = string

text \<open>The address of a ViewModel object; \<^verbatim>\<open>a === b\<close> on ViewModels is equality of addresses.\<close>
type_synonym vm_ref = nat

text \<open>A DOM element, a registered text transform and a change callback are known by identity only.\<close>
datatype HTMLElement = HTMLElement nat
datatype TextTransform = TextTransform nat
datatype Callback = Callback nat

text \<open>The node classes imported by the editor, and classes defined by callers.\<close>
datatype NodeClass = BlockNode | TextNode | BodyNode | ParagraphNode | HeaderNode | CustomNode nat

text \<open>\<^verbatim>\<open>new Error(message)\<close>.\<close>
datatype error = Error string

text \<open>
  Modelled from the spec: the class \<^verbatim>\<open>ViewModel\<close> of \<^verbatim>\<open>./OutlineView\<close>, whose declaration
  is not part of the sources at hand. The fields are the attributes of section 3 of the
  specification; the editor reads \<^verbatim>\<open>nodeMap\<close>, \<^verbatim>\<open>selection\<close>, \<^verbatim>\<open>_dirtyNodes\<close> and
  \<^verbatim>\<open>_dirtySubTrees\<close>. \<^verbatim>\<open>nodeMap\<close> is a plain object used as a dictionary, given
  by its own properties; a dirty set is \<^verbatim>\<open>null\<close> (\<^const>\<open>None\<close>) once the ViewModel is
  committed.
  The types of nodes and of selections are left open.
\<close>
record ('node, 'sel) ViewModel =
  nodeMap :: "(NodeKey \<times> 'node) list"
  vm_selection :: "'sel option"
  vm_dirtyNodes :: "NodeKey list option"
  vm_dirtySubTrees :: "NodeKey list option"
  vm_timeStamp :: nat

text \<open>
  What \<^verbatim>\<open>obj[key]\<close> yields on a plain object: the value of the own property \<^verbatim>\<open>key\<close>; or,
  when the object has no such property of its own, the member of \<^verbatim>\<open>Object.prototype\<close> of
  that name; or \<^verbatim>\<open>undefined\<close>.
\<close>
datatype 'v property = Own 'v | Inherited string | Undefined

text \<open>The names of the properties of \<^verbatim>\<open>Object.prototype\<close>.\<close>
definition object_prototype_names :: "string list" where
  "object_prototype_names =
     [''constructor'', ''__defineGetter__'', ''__defineSetter__'', ''hasOwnProperty'',
      ''__lookupGetter__'', ''__lookupSetter__'', ''isPrototypeOf'', ''propertyIsEnumerable'',
      ''toString'', ''valueOf'', ''__proto__'', ''toLocaleString'']"

definition get_property :: "(string \<times> 'v) list \<Rightarrow> string \<Rightarrow> 'v property" where
  "get_property obj key =
     (case map_of obj key of
        Some v \<Rightarrow> Own v
      | None \<Rightarrow> if key \<in> set object_prototype_names then Inherited key else Undefined)"

text \<open>
  \<^verbatim>\<open>ViewModelDiffType\<close>. An entry of \<^verbatim>\<open>nodes\<close> is whatever the lookup in \<^verbatim>\<open>nodeMap\<close>
  yielded.
\<close>
record ('node, 'sel) ViewModelDiffType =
  dirtySubTrees :: "NodeKey list"
  nodes :: "'node property list"
  selection :: "'sel option"
  timeStamp :: nat

text \<open>The fields of class \<^verbatim>\<open>OutlineEditor\<close>; \<^verbatim>\<open>_viewModel\<close> holds a reference.\<close>
record OutlineEditor =
  e_editorElement :: HTMLElement
  e_viewModel :: vm_ref
  e_isUpdating :: bool
  e_keyToDOMMap :: "(NodeKey \<times> HTMLElement) list"
  e_onChange :: "Callback option"
  e_textTransforms :: "TextTransform list"
  e_registeredNodeTypes :: "(string \<times> NodeClass) list"

text \<open>
  A job of the microtask queue: the function passed to \<^verbatim>\<open>Promise.resolve().then\<close> in
  \<^verbatim>\<open>update\<close>, which captures the ViewModel of the call.
\<close>
datatype job = DeferredUpdate vm_ref

text \<open>
  What a call that leaves the editor's own code finds when it is made: the store of
  ViewModel objects, the microtask queue and the fields of the editor.
\<close>
record ('node, 'sel) moment =
  at_heap :: "('node, 'sel) ViewModel list"
  at_microtasks :: "job list"
  at_editor :: OutlineEditor

text \<open>
  Calls that leave the editor's own code are recorded in a log, each with the moment at
  which it is made: an invocation of the Reconciler \<^verbatim>\<open>updateViewModel\<close> with a ViewModel, and
  an invocation of the change callback with a ViewModel.
\<close>
datatype ('node, 'sel) event =
    Reconcile vm_ref "('node, 'sel) moment"
  | OnChange Callback vm_ref "('node, 'sel) moment"

fun event_moment :: "('node, 'sel) event \<Rightarrow> ('node, 'sel) moment" where
  "event_moment (Reconcile viewModel m) = m"
| "event_moment (OnChange f viewModel m) = m"

text \<open>The call found \<^verbatim>\<open>isUpdating()\<close> false.\<close>
definition seen_idle :: "('node, 'sel) event \<Rightarrow> bool" where
  "seen_idle e = (\<not> e_isUpdating (at_editor (event_moment e)))"

text \<open>
  The JavaScript runtime around the editor: the store of ViewModel objects (an object's
  address is its index; \<^verbatim>\<open>new\<close> appends), the microtask queue (first in, first out) and the
  log. A world is a runtime together with the one editor running in it.
\<close>
record ('node, 'sel) runtime =
  heap :: "('node, 'sel) ViewModel list"
  microtasks :: "job list"
  trace :: "('node, 'sel) event list"

record ('node, 'sel) world = "('node, 'sel) runtime" +
  editor :: OutlineEditor

definition moment :: "('node, 'sel) world \<Rightarrow> ('node, 'sel) moment" where
  "moment w = \<lparr>at_heap = heap w, at_microtasks = microtasks w, at_editor = editor w\<rparr>"

definition deref :: "('node, 'sel) ViewModel list \<Rightarrow> vm_ref \<Rightarrow> ('node, 'sel) ViewModel option" where
  "deref h r = (if r < length h then Some (h ! r) else None)"

section \<open>Construction\<close>

text \<open>
  Modelled from the spec: the constructor of \<^verbatim>\<open>ViewModel\<close>, which is not part of the
  sources at hand. The initial ViewModel is the editor's current one, so its dirty tracking
  is cleared; its node mapping is empty until \<^verbatim>\<open>createOutlineEditor\<close> seeds it with the
  root; the time of creation is read from the clock. The record has no attribute of its own
  for the root node passed in.
\<close>
definition new_ViewModel :: "nat \<Rightarrow> 'node \<Rightarrow> ('node, 'sel) ViewModel" where
  "new_ViewModel now body =
     \<lparr>nodeMap = [], vm_selection = None, vm_dirtyNodes = None, vm_dirtySubTrees = None,
      vm_timeStamp = now\<rparr>"

text \<open>The constructor of \<^verbatim>\<open>OutlineEditor\<close>.\<close>
definition new_OutlineEditor :: "HTMLElement \<Rightarrow> vm_ref \<Rightarrow> Callback option \<Rightarrow> OutlineEditor" where
  "new_OutlineEditor editorElement viewModel onChange =
     \<lparr>e_editorElement = editorElement,
      e_viewModel = viewModel,
      e_isUpdating = False,
      e_keyToDOMMap = [],
      e_onChange = onChange,
      e_textTransforms = [],
      e_registeredNodeTypes =
        [(''block'', BlockNode), (''text'', TextNode), (''body'', BodyNode),
         (''paragraph'', ParagraphNode), (''header'', HeaderNode)]\<rparr>"

text \<open>
  \<^verbatim>\<open>createOutlineEditor\<close>. The root node made by \<^verbatim>\<open>createBodyNode()\<close> (a function of
  \<^verbatim>\<open>./nodes/OutlineBodyNode\<close>) and the reading of the clock are parameters. The change
  callback is \<^const>\<open>None\<close> when \<^verbatim>\<open>typeof onChange\<close> is not \<^verbatim>\<open>'function'\<close>.
\<close>
definition createOutlineEditor ::
  "nat \<Rightarrow> 'node \<Rightarrow> HTMLElement \<Rightarrow> Callback option \<Rightarrow> ('node, 'sel) runtime \<Rightarrow> ('node, 'sel) world" where
  "createOutlineEditor now body editorElement onChange rt =
     (let viewModel = length (heap rt);
          vm = new_ViewModel now body;
          vm = vm\<lparr>nodeMap := AList.update ''body'' body (nodeMap vm)\<rparr>;
          outlineEditor = new_OutlineEditor editorElement viewModel onChange;
          outlineEditor = outlineEditor
            \<lparr>e_keyToDOMMap := AList.update ''body'' editorElement (e_keyToDOMMap outlineEditor)\<rparr>;
          w = \<lparr>heap = heap rt @ [vm],
               microtasks = microtasks rt,
               trace = trace rt,
               editor = outlineEditor\<rparr>
      in case onChange of
           Some f \<Rightarrow> w\<lparr>trace := trace w @ [OnChange f viewModel (moment w)]\<rparr>
         | None \<Rightarrow> w)"

section \<open>Registries\<close>

text \<open>\<^verbatim>\<open>Set.prototype.add\<close> and \<^verbatim>\<open>Set.prototype.delete\<close> on a set kept in insertion order.\<close>
definition set_add :: "'a \<Rightarrow> 'a list \<Rightarrow> 'a list" where
  "set_add x xs = (if x \<in> set xs then xs else xs @ [x])"

definition set_delete :: "'a \<Rightarrow> 'a list \<Rightarrow> 'a list" where
  "set_delete x xs = removeAll x xs"

text \<open>
  The function returned by \<^verbatim>\<open>addNodeType\<close>: it captures \<^verbatim>\<open>nodeType\<close> and the editor, and
  reads \<^verbatim>\<open>this._registeredNodeTypes\<close> when it is invoked.
\<close>
definition unregisterNodeType :: "string \<Rightarrow> ('node, 'sel) world \<Rightarrow> ('node, 'sel) world" where
  "unregisterNodeType nodeType w =
     w\<lparr>editor := (editor w)
         \<lparr>e_registeredNodeTypes := AList.delete nodeType (e_registeredNodeTypes (editor w))\<rparr>\<rparr>"

definition addNodeType ::
  "string \<Rightarrow> NodeClass \<Rightarrow> ('node, 'sel) world
     \<Rightarrow> (('node, 'sel) world \<Rightarrow> ('node, 'sel) world) \<times> ('node, 'sel) world" where
  "addNodeType nodeType klass w =
     (unregisterNodeType nodeType,
      w\<lparr>editor := (editor w)
          \<lparr>e_registeredNodeTypes := AList.update nodeType klass (e_registeredNodeTypes (editor w))\<rparr>\<rparr>)"

definition unregisterTextTransform :: "TextTransform \<Rightarrow> ('node, 'sel) world \<Rightarrow> ('node, 'sel) world" where
  "unregisterTextTransform transformFn w =
     w\<lparr>editor := (editor w)
         \<lparr>e_textTransforms := set_delete transformFn (e_textTransforms (editor w))\<rparr>\<rparr>"

definition addTextTransform ::
  "TextTransform \<Rightarrow> ('node, 'sel) world
     \<Rightarrow> (('node, 'sel) world \<Rightarrow> ('node, 'sel) world) \<times> ('node, 'sel) world" where
  "addTextTransform transformFn w =
     (unregisterTextTransform transformFn,
      w\<lparr>editor := (editor w)
          \<lparr>e_textTransforms := set_add transformFn (e_textTransforms (editor w))\<rparr>\<rparr>)"

section \<open>Accessors\<close>

definition isUpdating :: "('node, 'sel) world \<Rightarrow> bool" where
  "isUpdating w = e_isUpdating (editor w)"

definition getEditorElement :: "('node, 'sel) world \<Rightarrow> HTMLElement" where
  "getEditorElement w = e_editorElement (editor w)"

definition getElementByKey :: "NodeKey \<Rightarrow> ('node, 'sel) world \<Rightarrow> error + HTMLElement" where
  "getElementByKey key w =
     (case map_of (e_keyToDOMMap (editor w)) key of
        None \<Rightarrow> Inl (Error (''getElementByKey failed for key '' @ key))
      | Some element \<Rightarrow> Inr element)"

definition getCurrentViewModel :: "('node, 'sel) world \<Rightarrow> vm_ref" where
  "getCurrentViewModel w = e_viewModel (editor w)"

section \<open>The diff of a ViewModel\<close>

text \<open>
  \<^verbatim>\<open>getDiffFromViewModel\<close> reads the fields of its argument and the clock (\<^verbatim>\<open>Date.now()\<close>,
  the parameter \<open>now\<close>); it uses no field of the editor.
\<close>
definition getDiffFromViewModel ::
  "nat \<Rightarrow> ('node, 'sel) ViewModel \<Rightarrow> error + ('node, 'sel) ViewModelDiffType" where
  "getDiffFromViewModel now viewModel =
     (case (vm_dirtyNodes viewModel, vm_dirtySubTrees viewModel) of
        (Some dirtyNodes, Some dirtySubTrees') \<Rightarrow>
          Inr \<lparr>dirtySubTrees = dirtySubTrees',
               nodes = map (\<lambda>nodeKey. get_property (nodeMap viewModel) nodeKey) dirtyNodes,
               selection = vm_selection viewModel,
               timeStamp = now\<rparr>
      | _ \<Rightarrow> Inl (Error ''getDiffFromViewModel: unable to get diff from view mode''))"

section \<open>The Reconciler\<close>

text \<open>
  The algorithm that patches the presentation surface is outside the editor; it is the
  parameter \<open>patch\<close>, which maps a ViewModel and a key-to-element mapping to the mapping
  after the patch.
\<close>
type_synonym ('node, 'sel) patch =
  "('node, 'sel) ViewModel \<Rightarrow> (NodeKey \<times> HTMLElement) list \<Rightarrow> (NodeKey \<times> HTMLElement) list"

definition patchSurface ::
  "('node, 'sel) patch \<Rightarrow> vm_ref \<Rightarrow> ('node, 'sel) world \<Rightarrow> ('node, 'sel) world" where
  "patchSurface patch viewModel w =
     (case deref (heap w) viewModel of
        None \<Rightarrow> w
      | Some vm \<Rightarrow> w\<lparr>editor := (editor w)\<lparr>e_keyToDOMMap := patch vm (e_keyToDOMMap (editor w))\<rparr>\<rparr>)"

definition commitViewModel :: "vm_ref \<Rightarrow> ('node, 'sel) world \<Rightarrow> ('node, 'sel) world" where
  "commitViewModel viewModel w =
     w\<lparr>heap := (case deref (heap w) viewModel of
                  None \<Rightarrow> heap w
                | Some vm \<Rightarrow> (heap w)[viewModel := vm\<lparr>vm_dirtyNodes := None, vm_dirtySubTrees := None\<rparr>]),
       editor := (editor w)\<lparr>e_viewModel := viewModel\<rparr>\<rparr>"

definition notifyChange :: "vm_ref \<Rightarrow> ('node, 'sel) world \<Rightarrow> ('node, 'sel) world" where
  "notifyChange viewModel w =
     (case e_onChange (editor w) of
        None \<Rightarrow> w
      | Some f \<Rightarrow> w\<lparr>trace := trace w @ [OnChange f viewModel (moment w)]\<rparr>)"

text \<open>
  Modelled from the spec: the Reconciler \<^verbatim>\<open>updateViewModel(viewModel, editor)\<close> of
  \<^verbatim>\<open>./OutlineView\<close>, which is not part of the sources at hand. By section 6 of the
  specification it patches the presentation surface to match the ViewModel, updating the
  key-to-element mapping, then commits the ViewModel as the editor's current one, clearing
  its dirty sets; the change callback is invoked with the ViewModel just committed, from
  within the path that committed it. The invocation itself is recorded in the log first,
  with the moment at which the Reconciler is entered.
\<close>
definition updateViewModel ::
  "('node, 'sel) patch \<Rightarrow> vm_ref \<Rightarrow> ('node, 'sel) world \<Rightarrow> ('node, 'sel) world" where
  "updateViewModel patch viewModel w =
     notifyChange viewModel
       (commitViewModel viewModel
         (patchSurface patch viewModel
           (w\<lparr>trace := trace w @ [Reconcile viewModel (moment w)]\<rparr>)))"

section \<open>The update scheduler\<close>

text \<open>
  \<^verbatim>\<open>update(viewModel, forceSync)\<close>. The optional argument is \<^const>\<open>None\<close> when it is not
  passed; only \<^verbatim>\<open>true\<close> is truthy. The result is the outcome of the call and the world it
  leaves: the \<^verbatim>\<open>throw\<close> comes before any write, so it leaves the world it found.
\<close>
definition update ::
  "('node, 'sel) patch \<Rightarrow> vm_ref \<Rightarrow> bool option \<Rightarrow> ('node, 'sel) world
     \<Rightarrow> (error + unit) \<times> ('node, 'sel) world" where
  "update patch viewModel forceSync w =
     (if e_isUpdating (editor w) then (Inl (Error ''TODOL: Should never occur?''), w)
      else if viewModel = e_viewModel (editor w) then (Inr (), w)
      else if forceSync = Some True then (Inr (), updateViewModel patch viewModel w)
      else (Inr (),
            w\<lparr>editor := (editor w)\<lparr>e_isUpdating := True\<rparr>,
              microtasks := microtasks w @ [DeferredUpdate viewModel]\<rparr>))"

text \<open>Running a job of the queue: the body of the function passed to \<^verbatim>\<open>then\<close>.\<close>
fun run_job :: "('node, 'sel) patch \<Rightarrow> job \<Rightarrow> ('node, 'sel) world \<Rightarrow> ('node, 'sel) world" where
  "run_job patch (DeferredUpdate viewModel) w =
     updateViewModel patch viewModel (w\<lparr>editor := (editor w)\<lparr>e_isUpdating := False\<rparr>\<rparr>)"

text \<open>The oldest job leaves the queue and runs.\<close>
definition run_microtask :: "('node, 'sel) patch \<Rightarrow> ('node, 'sel) world \<Rightarrow> ('node, 'sel) world" where
  "run_microtask patch w =
     (case microtasks w of
        [] \<Rightarrow> w
      | j # js \<Rightarrow> run_job patch j (w\<lparr>microtasks := js\<rparr>))"

text \<open>
  The microtask checkpoint at the end of a synchronous turn: jobs run until the queue is
  empty.
\<close>
function drain :: "('node, 'sel) patch \<Rightarrow> ('node, 'sel) world \<Rightarrow> ('node, 'sel) world" where
  "drain patch w = (if microtasks w = [] then w else drain patch (run_microtask patch w))"
  by pat_completeness auto
termination
proof (relation "measure (\<lambda>(patch, w). length (microtasks w))")
  show "wf (measure (\<lambda>(patch, w). length (microtasks w)))" by simp
next
  fix patch :: "('a, 'b) patch" and w :: "('a, 'b) world"
  assume "microtasks w \<noteq> []"
  then obtain j js where q: "microtasks w = j # js" by (cases "microtasks w") auto
  obtain vm where j: "j = DeferredUpdate vm" by (cases j) auto
  have "microtasks (run_microtask patch w) = js"
    by (simp add: run_microtask_def q j updateViewModel_def notifyChange_def
          commitViewModel_def patchSurface_def split: option.splits)
  then show "((patch, run_microtask patch w), patch, w) \<in> measure (\<lambda>(patch, w). length (microtasks w))"
    by (simp add: q)
qed

declare drain.simps [simp del]

text \<open>
  What a synchronous turn can do to the editor through its methods and through the
  functions they returned. The accessors and \<^verbatim>\<open>getDiffFromViewModel\<close> change nothing and
  are left out, and so is \<^verbatim>\<open>createViewModel\<close>, which only hands the current ViewModel to
  the View-Model Factory of \<^verbatim>\<open>./OutlineView\<close>.
\<close>
datatype call =
    CallUpdate vm_ref "bool option"
  | CallAddNodeType string NodeClass
  | CallUnregisterNodeType string
  | CallAddTextTransform TextTransform
  | CallUnregisterTextTransform TextTransform

fun perform :: "('node, 'sel) patch \<Rightarrow> call \<Rightarrow> ('node, 'sel) world \<Rightarrow> ('node, 'sel) world" where
  "perform patch (CallUpdate viewModel forceSync) w = snd (update patch viewModel forceSync w)"
| "perform patch (CallAddNodeType nodeType klass) w = snd (addNodeType nodeType klass w)"
| "perform patch (CallUnregisterNodeType nodeType) w = unregisterNodeType nodeType w"
| "perform patch (CallAddTextTransform transformFn) w = snd (addTextTransform transformFn w)"
| "perform patch (CallUnregisterTextTransform transformFn) w = unregisterTextTransform transformFn w"

fun perform_all :: "('node, 'sel) patch \<Rightarrow> call list \<Rightarrow> ('node, 'sel) world \<Rightarrow> ('node, 'sel) world" where
  "perform_all patch [] w = w"
| "perform_all patch (c # cs) w = perform_all patch cs (perform patch c w)"

text \<open>
  A sequence of turns, each of which requests one deferred update and ends with the
  microtask checkpoint; the result lists the outcome of every request.
\<close>
fun run_turns ::
  "('node, 'sel) patch \<Rightarrow> vm_ref list \<Rightarrow> ('node, 'sel) world
     \<Rightarrow> (error + unit) list \<times> ('node, 'sel) world" where
  "run_turns patch [] w = ([], w)"
| "run_turns patch (viewModel # rest) w =
     (case update patch viewModel None w of
        (r, w1) \<Rightarrow>
          (case run_turns patch rest (drain patch w1) of
             (rs, w2) \<Rightarrow> (r # rs, w2)))"

section \<open>A sample session\<close>

text \<open>
  An editor made over an empty runtime, and a pending ViewModel with two dirty nodes as the
  View-Model Factory would leave it in the store, at address 1.
\<close>
definition sample_patch :: "(string, nat) patch" where
  "sample_patch vm keyToDOMMap = keyToDOMMap"

definition sample_pending :: "(string, nat) ViewModel" where
  "sample_pending =
     \<lparr>nodeMap = [(''body'', ''root''), (''a'', ''first''), (''b'', ''second'')],
      vm_selection = Some 4,
      vm_dirtyNodes = Some [''a'', ''b''],
      vm_dirtySubTrees = Some [''body''],
      vm_timeStamp = 3\<rparr>"

definition sample_world :: "(string, nat) world" where
  "sample_world =
     (let w = createOutlineEditor 2 ''root'' (HTMLElement 0) (Some (Callback 0))
                \<lparr>heap = [], microtasks = [], trace = []\<rparr>
      in w\<lparr>heap := heap w @ [sample_pending]\<rparr>)"

section \<open>Facts about the Reconciler, the queue and the scheduler\<close>

lemma moment_trace: "moment (w\<lparr>trace := t\<rparr>) = moment w"
  by (simp add: moment_def)

lemma clear_idle_flag: "\<not> e_isUpdating e \<Longrightarrow> e\<lparr>e_isUpdating := False\<rparr> = e"
  by (cases e) simp

lemma microtasks_updateViewModel:
  "microtasks (updateViewModel patch vm w) = microtasks w"
  by (simp add: updateViewModel_def notifyChange_def commitViewModel_def patchSurface_def
        split: option.splits)

lemma isUpdating_updateViewModel:
  "e_isUpdating (editor (updateViewModel patch vm w)) = e_isUpdating (editor w)"
  by (simp add: updateViewModel_def notifyChange_def commitViewModel_def patchSurface_def
        split: option.splits)

lemma viewModel_updateViewModel:
  "e_viewModel (editor (updateViewModel patch vm w)) = vm"
  by (simp add: updateViewModel_def notifyChange_def commitViewModel_def patchSurface_def
        split: option.splits)

lemma committed_facts:
  "microtasks (commitViewModel vm (patchSurface patch vm w)) = microtasks w"
  "e_isUpdating (editor (commitViewModel vm (patchSurface patch vm w))) = e_isUpdating (editor w)"
  "e_onChange (editor (commitViewModel vm (patchSurface patch vm w))) = e_onChange (editor w)"
  "trace (commitViewModel vm (patchSurface patch vm w)) = trace w"
  "moment (commitViewModel vm (patchSurface patch vm (w\<lparr>trace := t\<rparr>))) =
     moment (commitViewModel vm (patchSurface patch vm w))"
  by (simp_all add: commitViewModel_def patchSurface_def moment_def split: option.splits)

lemma trace_updateViewModel:
  "trace (updateViewModel patch vm w) =
     trace w @ Reconcile vm (moment w) #
       (case e_onChange (editor w) of
          None \<Rightarrow> []
        | Some f \<Rightarrow> [OnChange f vm (moment (commitViewModel vm (patchSurface patch vm w)))])"
  by (simp add: updateViewModel_def notifyChange_def committed_facts split: option.splits)

lemma gained_updateViewModel:
  assumes "\<not> e_isUpdating (editor w)"
  shows "\<forall>e \<in> set (Reconcile vm (moment w) #
       (case e_onChange (editor w) of
          None \<Rightarrow> []
        | Some f \<Rightarrow> [OnChange f vm (moment (commitViewModel vm (patchSurface patch vm w)))])).
     seen_idle e \<and> at_microtasks (event_moment e) = microtasks w"
  using assms by (auto simp: seen_idle_def moment_def committed_facts split: option.splits)

lemma run_job_facts:
  "microtasks (run_job patch j w) = microtasks w"
  "\<not> e_isUpdating (editor (run_job patch j w))"
  "e_viewModel (editor (run_job patch j w)) = (case j of DeferredUpdate vm \<Rightarrow> vm)"
  by (cases j; simp add: microtasks_updateViewModel isUpdating_updateViewModel
        viewModel_updateViewModel)+

lemma run_job_gained:
  "\<exists>es. trace (run_job patch j w) = trace w @ es \<and> (\<forall>e \<in> set es. seen_idle e)"
proof (cases j)
  case (DeferredUpdate vm)
  let ?w = "w\<lparr>editor := (editor w)\<lparr>e_isUpdating := False\<rparr>\<rparr>"
  have "\<not> e_isUpdating (editor ?w)" by simp
  from gained_updateViewModel [OF this, of vm patch] show ?thesis
    by (simp add: DeferredUpdate trace_updateViewModel)
qed

lemma drain_empty: "microtasks w = [] \<Longrightarrow> drain patch w = w"
  by (simp add: drain.simps)

lemma drain_step:
  "microtasks w = j # js \<Longrightarrow> drain patch w = drain patch (run_job patch j (w\<lparr>microtasks := js\<rparr>))"
  by (subst drain.simps) (simp add: run_microtask_def)

lemma drain_nonempty:
  "microtasks w = q \<Longrightarrow> q \<noteq> [] \<Longrightarrow>
     microtasks (drain patch w) = [] \<and> \<not> e_isUpdating (editor (drain patch w)) \<and>
     e_viewModel (editor (drain patch w)) = (case last q of DeferredUpdate vm \<Rightarrow> vm)"
proof (induction q arbitrary: w)
  case Nil
  then show ?case by simp
next
  case (Cons j js)
  let ?w1 = "run_job patch j (w\<lparr>microtasks := js\<rparr>)"
  have q1: "microtasks ?w1 = js"
    by (simp add: run_job_facts)
  have unfold: "drain patch w = drain patch ?w1"
    using Cons.prems by (simp add: drain_step)
  show ?case
  proof (cases "js = []")
    case True
    then have "drain patch ?w1 = ?w1" using q1 by (simp add: drain_empty)
    then show ?thesis
      using True by (simp add: unfold run_job_facts)
  next
    case False
    from Cons.IH [OF q1 False] show ?thesis
      using False by (simp add: unfold)
  qed
qed

lemma drain_gained:
  "microtasks w = q \<Longrightarrow>
     \<exists>es. trace (drain patch w) = trace w @ es \<and> (\<forall>e \<in> set es. seen_idle e)"
proof (induction q arbitrary: w)
  case Nil
  then show ?case by (simp add: drain_empty)
next
  case (Cons j js)
  let ?w1 = "run_job patch j (w\<lparr>microtasks := js\<rparr>)"
  have q1: "microtasks ?w1 = js"
    by (simp add: run_job_facts)
  have unfold: "drain patch w = drain patch ?w1"
    using Cons.prems by (simp add: drain_step)
  obtain es1 where es1: "trace ?w1 = trace w @ es1" "\<forall>e \<in> set es1. seen_idle e"
    using run_job_gained [of patch j "w\<lparr>microtasks := js\<rparr>"] by auto
  obtain es2 where es2: "trace (drain patch ?w1) = trace ?w1 @ es2" "\<forall>e \<in> set es2. seen_idle e"
    using Cons.IH [OF q1] by auto
  have "trace (drain patch w) = trace w @ (es1 @ es2)"
    by (simp add: unfold es1 es2)
  moreover have "\<forall>e \<in> set (es1 @ es2). seen_idle e"
    using es1 es2 by auto
  ultimately show ?case by blast
qed

lemma update_schedules:
  "\<not> e_isUpdating (editor w) \<Longrightarrow> vm \<noteq> e_viewModel (editor w) \<Longrightarrow> forceSync \<noteq> Some True \<Longrightarrow>
     update patch vm forceSync w =
       (Inr (), w\<lparr>editor := (editor w)\<lparr>e_isUpdating := True\<rparr>,
                  microtasks := microtasks w @ [DeferredUpdate vm]\<rparr>)"
  by (simp add: update_def)

lemma trace_update_async: "forceSync \<noteq> Some True \<Longrightarrow> trace (snd (update patch vm forceSync w)) = trace w"
  by (simp add: update_def)

lemma perform_keeps_pending:
  "e_isUpdating (editor w) \<Longrightarrow>
     e_isUpdating (editor (perform patch c w)) \<and> microtasks (perform patch c w) = microtasks w"
  by (cases c)
     (simp_all add: update_def addNodeType_def unregisterNodeType_def addTextTransform_def
        unregisterTextTransform_def)

lemma perform_all_keeps_pending:
  "e_isUpdating (editor w) \<Longrightarrow>
     e_isUpdating (editor (perform_all patch cs w)) \<and>
     microtasks (perform_all patch cs w) = microtasks w"
  by (induction cs arbitrary: w) (simp_all add: perform_keeps_pending)

lemma turn_deferred:
  assumes "\<not> e_isUpdating (editor w)" "vm \<noteq> e_viewModel (editor w)"
  shows "fst (update patch vm None w) = Inr ()"
    and "microtasks (drain patch (snd (update patch vm None w))) = []"
    and "\<not> e_isUpdating (editor (drain patch (snd (update patch vm None w))))"
    and "e_viewModel (editor (drain patch (snd (update patch vm None w)))) = vm"
proof -
  let ?w1 = "w\<lparr>editor := (editor w)\<lparr>e_isUpdating := True\<rparr>,
                microtasks := microtasks w @ [DeferredUpdate vm]\<rparr>"
  have u: "update patch vm None w = (Inr (), ?w1)"
    using assms by (simp add: update_schedules)
  have d: "microtasks (drain patch ?w1) = [] \<and> \<not> e_isUpdating (editor (drain patch ?w1)) \<and>
     e_viewModel (editor (drain patch ?w1)) =
       (case last (microtasks w @ [DeferredUpdate vm]) of DeferredUpdate vm \<Rightarrow> vm)"
    by (rule drain_nonempty) simp_all
  show "fst (update patch vm None w) = Inr ()" by (simp add: u)
  show "microtasks (drain patch (snd (update patch vm None w))) = []" using d by (simp add: u)
  show "\<not> e_isUpdating (editor (drain patch (snd (update patch vm None w))))" using d by (simp add: u)
  show "e_viewModel (editor (drain patch (snd (update patch vm None w)))) = vm" using d by (simp add: u)
qed

lemma turn_gained:
  "\<exists>es. trace (drain patch (snd (update patch vm None w))) = trace w @ es
        \<and> (\<forall>e \<in> set es. seen_idle e)"
  using drain_gained [of "snd (update patch vm None w)" _ patch]
  by (simp add: trace_update_async)

lemma run_turns_step:
  "run_turns patch (vm # rest) w =
      (fst (update patch vm None w) #
         fst (run_turns patch rest (drain patch (snd (update patch vm None w)))),
       snd (run_turns patch rest (drain patch (snd (update patch vm None w)))))"
  by (simp split: prod.splits)

lemma run_turns_deferred:
  "\<not> e_isUpdating (editor w) \<Longrightarrow> distinct_adj (e_viewModel (editor w) # vms) \<Longrightarrow> vms \<noteq> [] \<Longrightarrow>
     fst (run_turns patch vms w) = replicate (length vms) (Inr ()) \<and>
     microtasks (snd (run_turns patch vms w)) = [] \<and>
     \<not> e_isUpdating (editor (snd (run_turns patch vms w))) \<and>
     e_viewModel (editor (snd (run_turns patch vms w))) = last vms"
proof (induction vms arbitrary: w)
  case Nil
  then show ?case by simp
next
  case (Cons vm rest)
  let ?w2 = "drain patch (snd (update patch vm None w))"
  from Cons.prems have fresh: "vm \<noteq> e_viewModel (editor w)" by auto
  note t = turn_deferred [OF Cons.prems(1) fresh, of patch]
  show ?case
  proof (cases "rest = []")
    case True
    show ?thesis unfolding run_turns_step using t True by simp
  next
    case False
    have "distinct_adj (e_viewModel (editor ?w2) # rest)"
      using Cons.prems(2) t(4) by simp
    from Cons.IH [OF t(3) this False] show ?thesis
      unfolding run_turns_step using False t(1) by simp
  qed
qed

lemma run_turns_gained:
  "\<exists>es. trace (snd (run_turns patch vms w)) = trace w @ es \<and> (\<forall>e \<in> set es. seen_idle e)"
proof (induction vms arbitrary: w)
  case Nil
  then show ?case by simp
next
  case (Cons vm rest)
  let ?w2 = "drain patch (snd (update patch vm None w))"
  obtain es1 where es1: "trace ?w2 = trace w @ es1" "\<forall>e \<in> set es1. seen_idle e"
    using turn_gained [of patch vm w] by auto
  obtain es2 where es2: "trace (snd (run_turns patch rest ?w2)) = trace ?w2 @ es2"
      "\<forall>e \<in> set es2. seen_idle e"
    using Cons.IH [of ?w2] by auto
  have "trace (snd (run_turns patch (vm # rest) w)) = trace w @ (es1 @ es2)"
    unfolding run_turns_step by (simp add: es1 es2)
  moreover have "\<forall>e \<in> set (es1 @ es2). seen_idle e"
    using es1 es2 by auto
  ultimately show ?case by blast
qed

lemma turn_from_idle:
  assumes "\<not> e_isUpdating (editor w)" and "microtasks w = []"
  shows "drain patch (w\<lparr>editor := (editor w)\<lparr>e_isUpdating := True\<rparr>,
                        microtasks := microtasks w @ [DeferredUpdate vm]\<rparr>) =
         updateViewModel patch vm w"
proof -
  let ?w1 = "w\<lparr>editor := (editor w)\<lparr>e_isUpdating := True\<rparr>,
                microtasks := microtasks w @ [DeferredUpdate vm]\<rparr>"
  have q: "microtasks ?w1 = DeferredUpdate vm # []" using assms by simp
  have restored: "?w1\<lparr>microtasks := [], editor := (editor (?w1\<lparr>microtasks := []\<rparr>))\<lparr>e_isUpdating := False\<rparr>\<rparr> = w"
    using assms by (simp add: clear_idle_flag)
  have "drain patch ?w1 = drain patch (run_job patch (DeferredUpdate vm) (?w1\<lparr>microtasks := []\<rparr>))"
    by (rule drain_step [OF q])
  also have "\<dots> = run_job patch (DeferredUpdate vm) (?w1\<lparr>microtasks := []\<rparr>)"
    by (rule drain_empty) (simp add: microtasks_updateViewModel)
  also have "\<dots> = updateViewModel patch vm w"
    using restored by simp
  finally show ?thesis .
qed

lemma sample_world_simps:
  "e_isUpdating (editor sample_world) = False"
  "e_viewModel (editor sample_world) = 0"
  "microtasks sample_world = []"
  "e_keyToDOMMap (editor sample_world) = [(''body'', HTMLElement 0)]"
  "e_onChange (editor sample_world) = Some (Callback 0)"
  "heap sample_world =
     [\<lparr>nodeMap = [(''body'', ''root'')], vm_selection = None, vm_dirtyNodes = None,
       vm_dirtySubTrees = None, vm_timeStamp = 2\<rparr>, sample_pending]"
  "e_registeredNodeTypes (editor sample_world) =
     [(''block'', BlockNode), (''text'', TextNode), (''body'', BodyNode),
      (''paragraph'', ParagraphNode), (''header'', HeaderNode)]"
  "length (trace sample_world) = 1"
  "map seen_idle (trace sample_world) = [True]"
  by (simp_all add: sample_world_def createOutlineEditor_def new_OutlineEditor_def
        new_ViewModel_def Let_def moment_def seen_idle_def)

section \<open>The claims\<close>

text \<open>
  C1. A call \<^verbatim>\<open>update(vm)\<close> made while the editor is idle, without \<^verbatim>\<open>forceSync\<close> and with a
  ViewModel other than the current one, returns normally having set the flag and queued one
  job for the ViewModel. Whatever methods the rest of the synchronous turn calls,
  \<^verbatim>\<open>isUpdating()\<close> stays true. When the job runs, in whatever world the queue reaches it,
  the log gains an invocation of the Reconciler with that ViewModel which finds the world of
  the job with the flag already cleared, every call the job makes finds \<^verbatim>\<open>isUpdating()\<close>
  false, and afterwards the editor is idle and \<^verbatim>\<open>getCurrentViewModel()\<close> is the ViewModel.
  So it is after the microtask checkpoint of the turn; from a world with an empty queue the
  log of the turn is the one invocation of the Reconciler, which finds the store, the queue
  and the editor as the request found them, followed by what the Reconciler does. For a
  sequence of such requests, one a turn, every request returns normally, every call made in
  the turns finds \<^verbatim>\<open>isUpdating()\<close> false, and the editor ends idle with the last ViewModel
  current.
\<close>
theorem update_deferred_then_idle:
  assumes idle: "\<not> isUpdating w"
    and fresh: "viewModel \<noteq> getCurrentViewModel w"
    and async: "forceSync \<noteq> Some True"
    and seq: "distinct_adj (viewModel # rest)"
  shows "update patch viewModel forceSync w =
           (Inr (), w\<lparr>editor := (editor w)\<lparr>e_isUpdating := True\<rparr>,
                      microtasks := microtasks w @ [DeferredUpdate viewModel]\<rparr>)
       \<and> (\<forall>cs. isUpdating (perform_all patch cs (snd (update patch viewModel forceSync w))))
       \<and> (\<forall>w2. trace (run_job patch (DeferredUpdate viewModel) w2) =
                   trace w2 @
                   Reconcile viewModel (moment (w2\<lparr>editor := (editor w2)\<lparr>e_isUpdating := False\<rparr>\<rparr>)) #
                     (case e_onChange (editor w2) of
                        None \<Rightarrow> []
                      | Some f \<Rightarrow>
                          [OnChange f viewModel
                             (moment (commitViewModel viewModel (patchSurface patch viewModel
                                (w2\<lparr>editor := (editor w2)\<lparr>e_isUpdating := False\<rparr>\<rparr>))))])
              \<and> (\<forall>e \<in> set (drop (length (trace w2))
                                (trace (run_job patch (DeferredUpdate viewModel) w2))). seen_idle e)
              \<and> \<not> isUpdating (run_job patch (DeferredUpdate viewModel) w2)
              \<and> getCurrentViewModel (run_job patch (DeferredUpdate viewModel) w2) = viewModel)
       \<and> (\<exists>es. trace (drain patch (snd (update patch viewModel forceSync w))) = trace w @ es
              \<and> (\<forall>e \<in> set es. seen_idle e))
       \<and> (microtasks w = [] \<longrightarrow>
            trace (drain patch (snd (update patch viewModel forceSync w))) =
              trace w @ Reconcile viewModel (moment w) #
                (case e_onChange (editor w) of
                   None \<Rightarrow> []
                 | Some f \<Rightarrow>
                     [OnChange f viewModel
                        (moment (commitViewModel viewModel (patchSurface patch viewModel w)))]))
       \<and> \<not> isUpdating (drain patch (snd (update patch viewModel forceSync w)))
       \<and> getCurrentViewModel (drain patch (snd (update patch viewModel forceSync w))) = viewModel
       \<and> microtasks (drain patch (snd (update patch viewModel forceSync w))) = []
       \<and> fst (run_turns patch (viewModel # rest) w) = replicate (Suc (length rest)) (Inr ())
       \<and> (\<exists>es. trace (snd (run_turns patch (viewModel # rest) w)) = trace w @ es
              \<and> (\<forall>e \<in> set es. seen_idle e))
       \<and> \<not> isUpdating (snd (run_turns patch (viewModel # rest) w))
       \<and> getCurrentViewModel (snd (run_turns patch (viewModel # rest) w)) = last (viewModel # rest)"
proof -
  let ?w1 = "w\<lparr>editor := (editor w)\<lparr>e_isUpdating := True\<rparr>,
                microtasks := microtasks w @ [DeferredUpdate viewModel]\<rparr>"
  have i: "\<not> e_isUpdating (editor w)" and f: "viewModel \<noteq> e_viewModel (editor w)"
    using idle fresh by (simp_all add: isUpdating_def getCurrentViewModel_def)
  have u: "update patch viewModel forceSync w = (Inr (), ?w1)"
    using i f async by (rule update_schedules)
  have p: "\<forall>cs. isUpdating (perform_all patch cs ?w1)"
    by (simp add: isUpdating_def perform_all_keeps_pending)
  have j: "\<forall>w2. trace (run_job patch (DeferredUpdate viewModel) w2) =
                   trace w2 @
                   Reconcile viewModel (moment (w2\<lparr>editor := (editor w2)\<lparr>e_isUpdating := False\<rparr>\<rparr>)) #
                     (case e_onChange (editor w2) of
                        None \<Rightarrow> []
                      | Some f \<Rightarrow>
                          [OnChange f viewModel
                             (moment (commitViewModel viewModel (patchSurface patch viewModel
                                (w2\<lparr>editor := (editor w2)\<lparr>e_isUpdating := False\<rparr>\<rparr>))))])
              \<and> (\<forall>e \<in> set (drop (length (trace w2))
                                (trace (run_job patch (DeferredUpdate viewModel) w2))). seen_idle e)
              \<and> \<not> isUpdating (run_job patch (DeferredUpdate viewModel) w2)
              \<and> getCurrentViewModel (run_job patch (DeferredUpdate viewModel) w2) = viewModel"
  proof
    fix w2 :: "('a, 'b) world"
    let ?w = "w2\<lparr>editor := (editor w2)\<lparr>e_isUpdating := False\<rparr>\<rparr>"
    have t: "trace (run_job patch (DeferredUpdate viewModel) w2) =
        trace w2 @ Reconcile viewModel (moment ?w) #
          (case e_onChange (editor w2) of
             None \<Rightarrow> []
           | Some f \<Rightarrow>
               [OnChange f viewModel
                  (moment (commitViewModel viewModel (patchSurface patch viewModel ?w)))])"
      by (simp add: trace_updateViewModel)
    have "\<not> e_isUpdating (editor ?w)" by simp
    from gained_updateViewModel [OF this, of viewModel patch]
    have g: "\<forall>e \<in> set (drop (length (trace w2))
                (trace (run_job patch (DeferredUpdate viewModel) w2))). seen_idle e"
      unfolding t by simp
    show "trace (run_job patch (DeferredUpdate viewModel) w2) =
                   trace w2 @
                   Reconcile viewModel (moment (w2\<lparr>editor := (editor w2)\<lparr>e_isUpdating := False\<rparr>\<rparr>)) #
                     (case e_onChange (editor w2) of
                        None \<Rightarrow> []
                      | Some f \<Rightarrow>
                          [OnChange f viewModel
                             (moment (commitViewModel viewModel (patchSurface patch viewModel
                                (w2\<lparr>editor := (editor w2)\<lparr>e_isUpdating := False\<rparr>\<rparr>))))])
              \<and> (\<forall>e \<in> set (drop (length (trace w2))
                                (trace (run_job patch (DeferredUpdate viewModel) w2))). seen_idle e)
              \<and> \<not> isUpdating (run_job patch (DeferredUpdate viewModel) w2)
              \<and> getCurrentViewModel (run_job patch (DeferredUpdate viewModel) w2) = viewModel"
      using t g
      by (simp add: isUpdating_def getCurrentViewModel_def isUpdating_updateViewModel
            viewModel_updateViewModel)
  qed
  have d: "microtasks (drain patch ?w1) = [] \<and> \<not> e_isUpdating (editor (drain patch ?w1)) \<and>
     e_viewModel (editor (drain patch ?w1)) =
       (case last (microtasks w @ [DeferredUpdate viewModel]) of DeferredUpdate vm \<Rightarrow> vm)"
    by (rule drain_nonempty) simp_all
  have dg: "\<exists>es. trace (drain patch ?w1) = trace w @ es \<and> (\<forall>e \<in> set es. seen_idle e)"
    using drain_gained [of ?w1 _ patch] by simp
  have dt: "microtasks w = [] \<longrightarrow>
            trace (drain patch ?w1) =
              trace w @ Reconcile viewModel (moment w) #
                (case e_onChange (editor w) of
                   None \<Rightarrow> []
                 | Some f \<Rightarrow>
                     [OnChange f viewModel
                        (moment (commitViewModel viewModel (patchSurface patch viewModel w)))])"
  proof
    assume e: "microtasks w = []"
    show "trace (drain patch ?w1) =
              trace w @ Reconcile viewModel (moment w) #
                (case e_onChange (editor w) of
                   None \<Rightarrow> []
                 | Some f \<Rightarrow>
                     [OnChange f viewModel
                        (moment (commitViewModel viewModel (patchSurface patch viewModel w)))])"
      unfolding turn_from_idle [OF i e] by (rule trace_updateViewModel)
  qed
  have da: "distinct_adj (e_viewModel (editor w) # viewModel # rest)"
    using f seq by auto
  have r: "fst (run_turns patch (viewModel # rest) w) = replicate (length (viewModel # rest)) (Inr ()) \<and>
     microtasks (snd (run_turns patch (viewModel # rest) w)) = [] \<and>
     \<not> e_isUpdating (editor (snd (run_turns patch (viewModel # rest) w))) \<and>
     e_viewModel (editor (snd (run_turns patch (viewModel # rest) w))) = last (viewModel # rest)"
    using i da by (rule run_turns_deferred) simp
  note rg = run_turns_gained [of patch "viewModel # rest" w]
  show ?thesis
    unfolding u snd_conv
    using p j d dg dt r rg
    by (simp add: isUpdating_def getCurrentViewModel_def del: run_turns.simps)
qed

theorem update_deferred_then_idle_witness:
  "\<not> isUpdating sample_world \<and> 1 \<noteq> getCurrentViewModel sample_world
   \<and> (None :: bool option) \<noteq> Some True \<and> distinct_adj [1 :: nat, 0, 1]
   \<and> microtasks sample_world = []
   \<and> fst (update sample_patch 1 None sample_world) = Inr ()
   \<and> isUpdating (snd (update sample_patch 1 None sample_world))
   \<and> map seen_idle (trace (drain sample_patch (snd (update sample_patch 1 None sample_world)))) =
       [True, True, True]
   \<and> getCurrentViewModel (drain sample_patch (snd (update sample_patch 1 None sample_world))) = 1
   \<and> \<not> isUpdating (snd (run_turns sample_patch [1, 0, 1] sample_world))
   \<and> getCurrentViewModel (snd (run_turns sample_patch [1, 0, 1] sample_world)) = 1"
proof -
  have h1: "\<not> isUpdating sample_world"
    by (simp add: isUpdating_def sample_world_simps)
  have h2: "1 \<noteq> getCurrentViewModel sample_world"
    by (simp add: getCurrentViewModel_def sample_world_simps)
  have h3: "(None :: bool option) \<noteq> Some True" by simp
  have h4: "distinct_adj (1 # [0 :: nat, 1])" by simp
  have h5: "microtasks sample_world = []" by (simp add: sample_world_simps)
  have s: "seen_idle (Reconcile 1 (moment sample_world))"
      "seen_idle (OnChange (Callback 0) 1
         (moment (commitViewModel 1 (patchSurface sample_patch 1 sample_world))))"
    by (simp_all add: seen_idle_def moment_def committed_facts sample_world_simps)
  from update_deferred_then_idle [OF h1 h2 h3 h4, of sample_patch]
  show ?thesis using h1 h2 h5 s
    by (auto simp: isUpdating_def getCurrentViewModel_def sample_world_simps
          simp del: run_turns.simps perform_all.simps)
qed

text \<open>
  C2. While a deferred update is pending (\<^verbatim>\<open>isUpdating()\<close> is true), \<^verbatim>\<open>update\<close> throws for
  every ViewModel and every value of \<^verbatim>\<open>forceSync\<close>, and leaves the world as it was: nothing
  is added to the queue, the pending job is not replaced, and the Reconciler is not invoked.
\<close>
theorem update_reentrant_throws:
  assumes "isUpdating w"
  shows "update patch viewModel forceSync w = (Inl (Error ''TODOL: Should never occur?''), w)"
  using assms by (simp add: update_def isUpdating_def)

theorem update_reentrant_throws_witness:
  "isUpdating (snd (update sample_patch 1 None sample_world))
   \<and> update sample_patch 0 (Some True) (snd (update sample_patch 1 None sample_world)) =
       (Inl (Error ''TODOL: Should never occur?''), snd (update sample_patch 1 None sample_world))
   \<and> microtasks (snd (update sample_patch 0 (Some True) (snd (update sample_patch 1 None sample_world))))
       = [DeferredUpdate 1]"
proof -
  have w1: "update sample_patch 1 None sample_world =
      (Inr (), sample_world\<lparr>editor := (editor sample_world)\<lparr>e_isUpdating := True\<rparr>,
                 microtasks := microtasks sample_world @ [DeferredUpdate 1]\<rparr>)"
    by (rule update_schedules) (simp_all add: sample_world_simps)
  have h: "isUpdating (snd (update sample_patch 1 None sample_world))"
    using w1 by (simp add: isUpdating_def)
  from update_reentrant_throws [OF h, of sample_patch 0 "Some True"]
  show ?thesis using h w1 by (auto simp: sample_world_simps)
qed

text \<open>
  C3. A call \<^verbatim>\<open>update(vm, true)\<close> made while the editor is idle, with a ViewModel other than
  the current one, returns normally. The log gains the invocation of the Reconciler with the
  ViewModel, made within the call and finding the store, the queue and the editor exactly
  as the call found them, followed by what the Reconciler does. Every call that leaves the
  editor's code during the call finds \<^verbatim>\<open>isUpdating()\<close> false and the microtask queue as the
  call found it; after the call \<^verbatim>\<open>isUpdating()\<close> is false, the queue is unchanged and the
  ViewModel is current.
\<close>
theorem update_forceSync_inline:
  assumes "\<not> isUpdating w" and "viewModel \<noteq> getCurrentViewModel w"
  shows "update patch viewModel (Some True) w = (Inr (), updateViewModel patch viewModel w)
       \<and> trace (snd (update patch viewModel (Some True) w)) =
           trace w @ Reconcile viewModel (moment w) #
             (case e_onChange (editor w) of
                None \<Rightarrow> []
              | Some f \<Rightarrow>
                  [OnChange f viewModel
                     (moment (commitViewModel viewModel (patchSurface patch viewModel w)))])
       \<and> (\<forall>e \<in> set (drop (length (trace w)) (trace (snd (update patch viewModel (Some True) w)))).
             seen_idle e \<and> at_microtasks (event_moment e) = microtasks w)
       \<and> \<not> isUpdating (snd (update patch viewModel (Some True) w))
       \<and> microtasks (snd (update patch viewModel (Some True) w)) = microtasks w
       \<and> getCurrentViewModel (snd (update patch viewModel (Some True) w)) = viewModel"
proof -
  have i: "\<not> e_isUpdating (editor w)" and f: "viewModel \<noteq> e_viewModel (editor w)"
    using assms by (simp_all add: isUpdating_def getCurrentViewModel_def)
  have u: "update patch viewModel (Some True) w = (Inr (), updateViewModel patch viewModel w)"
    using i f by (simp add: update_def)
  note t = trace_updateViewModel [of patch viewModel w]
  have g: "\<forall>e \<in> set (drop (length (trace w)) (trace (updateViewModel patch viewModel w))).
             seen_idle e \<and> at_microtasks (event_moment e) = microtasks w"
    unfolding t using gained_updateViewModel [OF i, of viewModel patch] by simp
  show ?thesis
    unfolding u snd_conv
    using i g
    by (simp add: t isUpdating_def getCurrentViewModel_def isUpdating_updateViewModel
          microtasks_updateViewModel viewModel_updateViewModel)
qed

theorem update_forceSync_inline_witness:
  "\<not> isUpdating sample_world \<and> 1 \<noteq> getCurrentViewModel sample_world
   \<and> fst (update sample_patch 1 (Some True) sample_world) = Inr ()
   \<and> drop 1 (trace (snd (update sample_patch 1 (Some True) sample_world))) =
       [Reconcile 1 (moment sample_world),
        OnChange (Callback 0) 1 (moment (commitViewModel 1 (patchSurface sample_patch 1 sample_world)))]
   \<and> \<not> e_isUpdating (at_editor (moment sample_world))
   \<and> \<not> e_isUpdating (at_editor (moment (commitViewModel 1 (patchSurface sample_patch 1 sample_world))))
   \<and> \<not> isUpdating (snd (update sample_patch 1 (Some True) sample_world))
   \<and> microtasks (snd (update sample_patch 1 (Some True) sample_world)) = []
   \<and> getCurrentViewModel (snd (update sample_patch 1 (Some True) sample_world)) = 1"
proof -
  have h1: "\<not> isUpdating sample_world"
    by (simp add: isUpdating_def sample_world_simps)
  have h2: "1 \<noteq> getCurrentViewModel sample_world"
    by (simp add: getCurrentViewModel_def sample_world_simps)
  have s: "\<not> e_isUpdating (at_editor (moment sample_world))"
      "\<not> e_isUpdating (at_editor (moment (commitViewModel 1 (patchSurface sample_patch 1 sample_world))))"
    by (simp_all add: moment_def committed_facts sample_world_simps)
  from update_forceSync_inline [OF h1 h2, of sample_patch]
  show ?thesis using h1 h2 s by (auto simp: sample_world_simps)
qed

text \<open>
  C4. A call of \<^verbatim>\<open>update\<close> made while the editor is idle with the editor's current ViewModel
  returns normally and changes nothing, whatever \<^verbatim>\<open>forceSync\<close> is: the world after the
  call is the world before it (the fields of the editor, the store, the queue and the log).
\<close>
theorem update_same_viewModel_noop:
  assumes "\<not> isUpdating w" and "viewModel = getCurrentViewModel w"
  shows "update patch viewModel forceSync w = (Inr (), w)"
  using assms by (simp add: update_def isUpdating_def getCurrentViewModel_def)

theorem update_same_viewModel_noop_witness:
  "\<not> isUpdating sample_world \<and> 0 = getCurrentViewModel sample_world
   \<and> update sample_patch 0 (Some True) sample_world = (Inr (), sample_world)
   \<and> update sample_patch 0 None sample_world = (Inr (), sample_world)"
proof -
  have h1: "\<not> isUpdating sample_world"
    by (simp add: isUpdating_def sample_world_simps)
  have h2: "0 = getCurrentViewModel sample_world"
    by (simp add: getCurrentViewModel_def sample_world_simps)
  from update_same_viewModel_noop [OF h1 h2, of sample_patch "Some True"]
    update_same_viewModel_noop [OF h1 h2, of sample_patch None]
  show ?thesis using h1 h2 by simp
qed

text \<open>
  C5. For a pending ViewModel (both dirty sets non-null) \<^verbatim>\<open>getDiffFromViewModel\<close> returns a
  record whose \<^verbatim>\<open>dirtySubTrees\<close> is the ViewModel's set of dirty subtrees, whose
  \<^verbatim>\<open>selection\<close> is the ViewModel's selection, whose \<^verbatim>\<open>nodes\<close> lists, in the iteration
  order of the dirty keys, what the lookup of each key in \<^verbatim>\<open>nodeMap\<close> yields, which for a key
  of \<^verbatim>\<open>nodeMap\<close> is the node held under it, and whose \<^verbatim>\<open>timeStamp\<close> is the reading of the
  clock at the call, whatever the ViewModel's own time of creation.
\<close>
theorem getDiffFromViewModel_pending:
  assumes "vm_dirtyNodes viewModel = Some dirtyKeys"
    and "vm_dirtySubTrees viewModel = Some subTrees"
  shows "getDiffFromViewModel now viewModel =
           Inr \<lparr>dirtySubTrees = subTrees,
                nodes = map (\<lambda>nodeKey. get_property (nodeMap viewModel) nodeKey) dirtyKeys,
                selection = vm_selection viewModel,
                timeStamp = now\<rparr>
       \<and> (\<forall>i < length dirtyKeys. \<forall>node.
             map_of (nodeMap viewModel) (dirtyKeys ! i) = Some node \<longrightarrow>
             map (\<lambda>nodeKey. get_property (nodeMap viewModel) nodeKey) dirtyKeys ! i = Own node)"
  using assms by (simp add: getDiffFromViewModel_def get_property_def)

theorem getDiffFromViewModel_pending_witness:
  "vm_dirtyNodes sample_pending = Some [''a'', ''b'']
   \<and> vm_dirtySubTrees sample_pending = Some [''body'']
   \<and> getDiffFromViewModel 9 sample_pending =
       Inr \<lparr>dirtySubTrees = [''body''], nodes = [Own ''first'', Own ''second''],
            selection = Some 4, timeStamp = 9\<rparr>
   \<and> vm_timeStamp sample_pending \<noteq> 9"
proof -
  have h1: "vm_dirtyNodes sample_pending = Some [''a'', ''b'']"
    by (simp add: sample_pending_def)
  have h2: "vm_dirtySubTrees sample_pending = Some [''body'']"
    by (simp add: sample_pending_def)
  from getDiffFromViewModel_pending [OF h1 h2, of 9]
  show ?thesis using h1 h2 by (simp add: sample_pending_def get_property_def)
qed

text \<open>
  C6. For a ViewModel whose \<^verbatim>\<open>_dirtyNodes\<close> or \<^verbatim>\<open>_dirtySubTrees\<close> is null,
  \<^verbatim>\<open>getDiffFromViewModel\<close> throws and returns no diff record.
\<close>
theorem getDiffFromViewModel_committed_throws:
  assumes "vm_dirtyNodes viewModel = None \<or> vm_dirtySubTrees viewModel = None"
  shows "getDiffFromViewModel now viewModel =
           Inl (Error ''getDiffFromViewModel: unable to get diff from view mode'')"
  using assms by (auto simp: getDiffFromViewModel_def split: option.splits)

theorem getDiffFromViewModel_committed_throws_witness:
  "(vm_dirtyNodes (sample_pending\<lparr>vm_dirtySubTrees := None\<rparr>) = None
      \<or> vm_dirtySubTrees (sample_pending\<lparr>vm_dirtySubTrees := None\<rparr>) = None)
   \<and> getDiffFromViewModel 9 (sample_pending\<lparr>vm_dirtySubTrees := None\<rparr>) =
       Inl (Error ''getDiffFromViewModel: unable to get diff from view mode'')
   \<and> (vm_dirtyNodes (heap sample_world ! 0) = None \<or> vm_dirtySubTrees (heap sample_world ! 0) = None)
   \<and> getDiffFromViewModel 9 (heap sample_world ! 0) =
       Inl (Error ''getDiffFromViewModel: unable to get diff from view mode'')"
proof -
  have h1: "vm_dirtyNodes (sample_pending\<lparr>vm_dirtySubTrees := None\<rparr>) = None
      \<or> vm_dirtySubTrees (sample_pending\<lparr>vm_dirtySubTrees := None\<rparr>) = None"
    by simp
  have h2: "vm_dirtyNodes (heap sample_world ! 0) = None
      \<or> vm_dirtySubTrees (heap sample_world ! 0) = None"
    by (simp add: sample_world_simps)
  from getDiffFromViewModel_committed_throws [OF h1, of 9]
    getDiffFromViewModel_committed_throws [OF h2, of 9]
  show ?thesis using h1 h2 by simp
qed

text \<open>
  C7. \<^verbatim>\<open>createOutlineEditor\<close>, given a root element and a change callback, invokes the
  callback once, and makes no other call outside the editor: the log gains the one
  invocation. The callback is invoked with the new ViewModel and finds the store and the
  editor as \<^verbatim>\<open>createOutlineEditor\<close> returns them: the ViewModel is the editor's current one,
  its \<^verbatim>\<open>nodeMap\<close> holds the root node under the key \<^verbatim>\<open>body\<close> and nothing else, the
  key-to-element mapping binds \<^verbatim>\<open>body\<close> to the root element, the editor is idle and nothing
  is queued, so no \<^verbatim>\<open>update\<close> has been called.
\<close>
theorem createOutlineEditor_notifies_once:
  "trace (createOutlineEditor now body editorElement (Some f) rt) =
     trace rt @ [OnChange f (length (heap rt))
                   (moment (createOutlineEditor now body editorElement (Some f) rt))]
   \<and> getCurrentViewModel (createOutlineEditor now body editorElement (Some f) rt) = length (heap rt)
   \<and> map_option nodeMap
       (deref (heap (createOutlineEditor now body editorElement (Some f) rt)) (length (heap rt)))
       = Some [(''body'', body)]
   \<and> e_keyToDOMMap (editor (createOutlineEditor now body editorElement (Some f) rt)) =
       [(''body'', editorElement)]
   \<and> getElementByKey ''body'' (createOutlineEditor now body editorElement (Some f) rt) =
       Inr editorElement
   \<and> \<not> isUpdating (createOutlineEditor now body editorElement (Some f) rt)
   \<and> microtasks (createOutlineEditor now body editorElement (Some f) rt) = microtasks rt
   \<and> map_option nodeMap
       (deref (at_heap (event_moment (last (trace (createOutlineEditor now body editorElement (Some f) rt)))))
          (length (heap rt)))
       = Some [(''body'', body)]
   \<and> e_keyToDOMMap (at_editor (event_moment
        (last (trace (createOutlineEditor now body editorElement (Some f) rt))))) =
       [(''body'', editorElement)]
   \<and> e_viewModel (at_editor (event_moment
        (last (trace (createOutlineEditor now body editorElement (Some f) rt))))) = length (heap rt)
   \<and> seen_idle (last (trace (createOutlineEditor now body editorElement (Some f) rt)))"
  by (simp add: createOutlineEditor_def new_OutlineEditor_def new_ViewModel_def Let_def
        getCurrentViewModel_def deref_def getElementByKey_def isUpdating_def moment_def
        seen_idle_def)

theorem createOutlineEditor_notifies_once_witness:
  "drop 0 (trace (createOutlineEditor 2 ''root'' (HTMLElement 0) (Some (Callback 0))
            (\<lparr>heap = [], microtasks = [], trace = []\<rparr> :: (string, nat) runtime))) =
     [OnChange (Callback 0) 0
        \<lparr>at_heap = [\<lparr>nodeMap = [(''body'', ''root'')], vm_selection = None, vm_dirtyNodes = None,
                      vm_dirtySubTrees = None, vm_timeStamp = 2\<rparr>],
         at_microtasks = [],
         at_editor = (new_OutlineEditor (HTMLElement 0) 0 (Some (Callback 0)))
                       \<lparr>e_keyToDOMMap := [(''body'', HTMLElement 0)]\<rparr>\<rparr>]
   \<and> getElementByKey ''body'' (createOutlineEditor 2 ''root'' (HTMLElement 0) (Some (Callback 0))
            (\<lparr>heap = [], microtasks = [], trace = []\<rparr> :: (string, nat) runtime)) =
       Inr (HTMLElement 0)"
proof -
  note t = createOutlineEditor_notifies_once [of 2 "''root''" "HTMLElement 0" "Callback 0"
      "\<lparr>heap = [], microtasks = [], trace = []\<rparr> :: (string, nat) runtime"]
  have a: "drop 0 (trace (createOutlineEditor 2 ''root'' (HTMLElement 0) (Some (Callback 0))
            (\<lparr>heap = [], microtasks = [], trace = []\<rparr> :: (string, nat) runtime))) =
     [OnChange (Callback 0) 0
        \<lparr>at_heap = [\<lparr>nodeMap = [(''body'', ''root'')], vm_selection = None, vm_dirtyNodes = None,
                      vm_dirtySubTrees = None, vm_timeStamp = 2\<rparr>],
         at_microtasks = [],
         at_editor = (new_OutlineEditor (HTMLElement 0) 0 (Some (Callback 0)))
                       \<lparr>e_keyToDOMMap := [(''body'', HTMLElement 0)]\<rparr>\<rparr>]"
    by (simp add: moment_def createOutlineEditor_def new_ViewModel_def new_OutlineEditor_def Let_def)
  from t have b: "getElementByKey ''body'' (createOutlineEditor 2 ''root'' (HTMLElement 0) (Some (Callback 0))
            (\<lparr>heap = [], microtasks = [], trace = []\<rparr> :: (string, nat) runtime)) =
       Inr (HTMLElement 0)"
    by blast
  from a b show ?thesis by blast
qed

text \<open>
  C8. \<^verbatim>\<open>addNodeType\<close> changes the registry only: the type name is bound to the node class,
  whether or not it was bound before, and every other name keeps its entry. The function it
  returns, invoked in any later world, changes the registry only: it removes the entries of
  that type name and no other, so the name is unbound afterwards; invoking it again
  changes nothing.
\<close>
theorem addNodeType_unregister:
  "fst (addNodeType nodeType klass w) = unregisterNodeType nodeType
   \<and> snd (addNodeType nodeType klass w) =
       w\<lparr>editor := (editor w)
           \<lparr>e_registeredNodeTypes := AList.update nodeType klass (e_registeredNodeTypes (editor w))\<rparr>\<rparr>
   \<and> map_of (e_registeredNodeTypes (editor (snd (addNodeType nodeType klass w)))) nodeType = Some klass
   \<and> (\<forall>t. t \<noteq> nodeType \<longrightarrow>
         map_of (e_registeredNodeTypes (editor (snd (addNodeType nodeType klass w)))) t =
         map_of (e_registeredNodeTypes (editor w)) t)
   \<and> (\<forall>w2. fst (addNodeType nodeType klass w) w2 =
              w2\<lparr>editor := (editor w2)
                  \<lparr>e_registeredNodeTypes :=
                     filter (\<lambda>(t, k). t \<noteq> nodeType) (e_registeredNodeTypes (editor w2))\<rparr>\<rparr>
         \<and> map_of (e_registeredNodeTypes (editor (fst (addNodeType nodeType klass w) w2))) nodeType = None
         \<and> (\<forall>t. t \<noteq> nodeType \<longrightarrow>
               map_of (e_registeredNodeTypes (editor (fst (addNodeType nodeType klass w) w2))) t =
               map_of (e_registeredNodeTypes (editor w2)) t)
         \<and> fst (addNodeType nodeType klass w) (fst (addNodeType nodeType klass w) w2) =
             fst (addNodeType nodeType klass w) w2)"
proof -
  have d: "\<And>al. AList.delete nodeType al = filter (\<lambda>(t, k :: NodeClass). t \<noteq> nodeType) al"
    by (induct_tac al) auto
  have n: "\<And>al :: (string \<times> NodeClass) list. map_of (AList.delete nodeType al) nodeType = None"
    by (simp add: AList.delete_conv)
  show ?thesis
    unfolding addNodeType_def fst_conv snd_conv
    by (simp add: unregisterNodeType_def AList.update_conv' AList.delete_idem n) (simp add: d)
qed

theorem addNodeType_unregister_witness:
  "map_of (e_registeredNodeTypes (editor (snd (addNodeType ''custom'' (CustomNode 0) sample_world))))
     ''custom'' = Some (CustomNode 0)
   \<and> ''text'' \<noteq> ''custom''
   \<and> map_of (e_registeredNodeTypes (editor (snd (addNodeType ''custom'' (CustomNode 0) sample_world))))
       ''text'' = Some TextNode
   \<and> map_of (e_registeredNodeTypes (editor
        (fst (addNodeType ''custom'' (CustomNode 0) sample_world)
           (snd (addNodeType ''custom'' (CustomNode 0) sample_world))))) ''custom'' = None
   \<and> fst (addNodeType ''custom'' (CustomNode 0) sample_world)
        (fst (addNodeType ''custom'' (CustomNode 0) sample_world)
           (snd (addNodeType ''custom'' (CustomNode 0) sample_world))) = sample_world"
proof -
  note t = addNodeType_unregister [of "''custom''" "CustomNode 0" sample_world]
  have r: "e_registeredNodeTypes (editor sample_world) =
     [(''block'', BlockNode), (''text'', TextNode), (''body'', BodyNode),
      (''paragraph'', ParagraphNode), (''header'', HeaderNode)]"
    by (simp add: sample_world_simps)
  have undone: "fst (addNodeType ''custom'' (CustomNode 0) sample_world)
           (snd (addNodeType ''custom'' (CustomNode 0) sample_world)) = sample_world"
    by (simp add: addNodeType_def unregisterNodeType_def r)
  from t show ?thesis
    by (simp add: undone r) (simp add: addNodeType_def unregisterNodeType_def r)
qed

text \<open>
  C9. \<^verbatim>\<open>getElementByKey\<close> returns the element that the key-to-element mapping binds to the
  key, and throws when the mapping has no binding for the key; the throw is the outcome of
  the call.
\<close>
theorem getElementByKey_lookup:
  "(map_of (e_keyToDOMMap (editor w)) key = Some element \<longrightarrow> getElementByKey key w = Inr element)
   \<and> (key \<notin> fst ` set (e_keyToDOMMap (editor w)) \<longrightarrow>
        getElementByKey key w = Inl (Error (''getElementByKey failed for key '' @ key)))"
  by (simp add: getElementByKey_def map_of_eq_None_iff [symmetric])

theorem getElementByKey_lookup_witness:
  "map_of (e_keyToDOMMap (editor sample_world)) ''body'' = Some (HTMLElement 0)
   \<and> getElementByKey ''body'' sample_world = Inr (HTMLElement 0)
   \<and> ''a'' \<notin> fst ` set (e_keyToDOMMap (editor sample_world))
   \<and> getElementByKey ''a'' sample_world = Inl (Error ''getElementByKey failed for key a'')"
proof -
  have h1: "map_of (e_keyToDOMMap (editor sample_world)) ''body'' = Some (HTMLElement 0)"
    by (simp add: sample_world_simps)
  have h2: "''a'' \<notin> fst ` set (e_keyToDOMMap (editor sample_world))"
    by (simp add: sample_world_simps)
  from getElementByKey_lookup [of sample_world "''body''" "HTMLElement 0"]
    getElementByKey_lookup [of sample_world "''a''" "HTMLElement 0"]
  show ?thesis using h1 h2 by simp
qed

text \<open>
  C10, as stated, fails: a dirty key that \<^verbatim>\<open>nodeMap\<close> lacks and that names a property of
  \<^verbatim>\<open>Object.prototype\<close>, here \<^verbatim>\<open>constructor\<close>, yields the inherited member and not
  \<^verbatim>\<open>undefined\<close>.
\<close>
theorem getDiffFromViewModel_missing_key_counterexample:
  "vm_dirtyNodes (sample_pending\<lparr>vm_dirtyNodes := Some [''a'', ''constructor'']\<rparr>) =
     Some [''a'', ''constructor'']
   \<and> vm_dirtySubTrees (sample_pending\<lparr>vm_dirtyNodes := Some [''a'', ''constructor'']\<rparr>) =
     Some [''body'']
   \<and> ''constructor'' \<notin> fst ` set (nodeMap (sample_pending\<lparr>vm_dirtyNodes := Some [''a'', ''constructor'']\<rparr>))
   \<and> getDiffFromViewModel 9 (sample_pending\<lparr>vm_dirtyNodes := Some [''a'', ''constructor'']\<rparr>) =
       Inr \<lparr>dirtySubTrees = [''body''], nodes = [Own ''first'', Inherited ''constructor''],
            selection = Some 4, timeStamp = 9\<rparr>
   \<and> [Own ''first'', Inherited ''constructor''] ! 1 \<noteq> (Undefined :: string property)"
  by (simp add: getDiffFromViewModel_def get_property_def object_prototype_names_def
        sample_pending_def)

text \<open>
  C10, amended. \<^verbatim>\<open>getDiffFromViewModel\<close> does not check that a dirty key is a key of
  \<^verbatim>\<open>nodeMap\<close>: for a pending ViewModel with a dirty key that \<^verbatim>\<open>nodeMap\<close> lacks the call
  succeeds, \<^verbatim>\<open>nodes\<close> has one entry for each dirty key, and the entry at the position of the
  missing key is no node of the ViewModel: it is \<^verbatim>\<open>undefined\<close>, unless the key names a
  property of \<^verbatim>\<open>Object.prototype\<close>, in which case it is the inherited member.
\<close>
theorem getDiffFromViewModel_missing_key:
  assumes "vm_dirtyNodes viewModel = Some dirtyKeys"
    and "vm_dirtySubTrees viewModel = Some subTrees"
    and "i < length dirtyKeys"
    and "dirtyKeys ! i \<notin> fst ` set (nodeMap viewModel)"
  shows "\<exists>d. getDiffFromViewModel now viewModel = Inr d
           \<and> length (nodes d) = length dirtyKeys
           \<and> nodes d ! i =
               (if dirtyKeys ! i \<in> set object_prototype_names
                then Inherited (dirtyKeys ! i) else Undefined)
           \<and> (\<forall>node. nodes d ! i \<noteq> Own node)"
  using assms
  by (simp add: getDiffFromViewModel_def get_property_def map_of_eq_None_iff [symmetric])

theorem getDiffFromViewModel_missing_key_witness:
  "vm_dirtyNodes (sample_pending\<lparr>vm_dirtyNodes := Some [''a'', ''x'', ''toString'']\<rparr>) =
     Some [''a'', ''x'', ''toString'']
   \<and> vm_dirtySubTrees (sample_pending\<lparr>vm_dirtyNodes := Some [''a'', ''x'', ''toString'']\<rparr>) =
     Some [''body'']
   \<and> (1 :: nat) < length [''a'', ''x'', ''toString'']
   \<and> [''a'', ''x'', ''toString''] ! 1 \<notin>
       fst ` set (nodeMap (sample_pending\<lparr>vm_dirtyNodes := Some [''a'', ''x'', ''toString'']\<rparr>))
   \<and> (2 :: nat) < length [''a'', ''x'', ''toString'']
   \<and> [''a'', ''x'', ''toString''] ! 2 \<notin>
       fst ` set (nodeMap (sample_pending\<lparr>vm_dirtyNodes := Some [''a'', ''x'', ''toString'']\<rparr>))
   \<and> getDiffFromViewModel 9 (sample_pending\<lparr>vm_dirtyNodes := Some [''a'', ''x'', ''toString'']\<rparr>) =
       Inr \<lparr>dirtySubTrees = [''body''],
            nodes = [Own ''first'', Undefined, Inherited ''toString''],
            selection = Some 4, timeStamp = 9\<rparr>"
proof -
  let ?vm = "sample_pending\<lparr>vm_dirtyNodes := Some [''a'', ''x'', ''toString'']\<rparr>"
  have h1: "vm_dirtyNodes ?vm = Some [''a'', ''x'', ''toString'']" by simp
  have h2: "vm_dirtySubTrees ?vm = Some [''body'']" by (simp add: sample_pending_def)
  have h3: "(1 :: nat) < length [''a'', ''x'', ''toString'']" by simp
  have h4: "[''a'', ''x'', ''toString''] ! 1 \<notin> fst ` set (nodeMap ?vm)"
    by (simp add: sample_pending_def)
  have h5: "(2 :: nat) < length [''a'', ''x'', ''toString'']" by simp
  have h6: "[''a'', ''x'', ''toString''] ! 2 \<notin> fst ` set (nodeMap ?vm)"
    by (simp add: sample_pending_def)
  from getDiffFromViewModel_missing_key [OF h1 h2 h3 h4, of 9]
    getDiffFromViewModel_missing_key [OF h1 h2 h5 h6, of 9]
  show ?thesis using h1 h2 h3 h4 h5 h6
    by (simp add: getDiffFromViewModel_def get_property_def object_prototype_names_def
          sample_pending_def)
qed

end
